theory Spec2Isabelle
  imports Complex_Main
begin

section \<open>Curves of the yard package (yard/curve.py)\<close>

text \<open>
  A curve is a series of points; the constructor of \<^verbatim>\<open>Curve\<close> asks for an iterable of
  2-tuples that hold the coordinates. \<^verbatim>\<open>coarsen\<close> and the three \<^verbatim>\<open>transform\<close> methods
  never look inside a coordinate, so a curve is a record over any type \<open>'a\<close> of
  coordinates; \<^verbatim>\<open>auc\<close> computes with them, and there a coordinate is a Python number
  (an integer of any size or a float). The instance attribute \<^verbatim>\<open>_points\<close> is the only
  state of a \<^verbatim>\<open>Curve\<close>; it is the field \<open>points\<close> of the record.
\<close>

record 'a curve =
  points :: "('a \<times> 'a) list"

subsection \<open>Exceptions\<close>

datatype error =
  TypeError | ValueError | ZeroDivisionError | IndexError | KeyError | OverflowError

text \<open>A statement that uses the value of an expression that may raise.\<close>

definition and_then :: "error + 'a \<Rightarrow> ('a \<Rightarrow> error + 'b) \<Rightarrow> error + 'b" where
  "and_then r f = (case r of Inl e \<Rightarrow> Inl e | Inr v \<Rightarrow> f v)"

subsection \<open>Python floats\<close>

text \<open>
  A Python float is an IEEE 754 binary64 number: a finite value, an infinity or a NaN.
  A finite value is given by the real number it stands for; the values that occur are
  those that \<open>round_double\<close> leaves as they are. The sign of a zero is not kept (the two
  zeros compare equal in Python, and a division by either raises).

  \<open>round_double\<close> rounds a real number to the nearest binary64 value, ties to the value
  with an even significand. A binary64 value has a significand of 53 bits; the spacing
  of the values around \<open>a\<close> with \<open>2\<^sup>e \<le> a < 2\<^sup>e\<^sup>+\<^sup>1\<close> is \<open>2\<^sup>e\<^sup>-\<^sup>5\<^sup>2\<close>, and \<open>2\<^sup>-\<^sup>1\<^sup>0\<^sup>7\<^sup>4\<close> below
  \<open>2\<^sup>-\<^sup>1\<^sup>0\<^sup>2\<^sup>2\<close> (the subnormal numbers). A result of magnitude \<open>2\<^sup>1\<^sup>0\<^sup>2\<^sup>4\<close> or more after
  rounding is an infinity.
\<close>

datatype float64 = Finite real | PosInf | NegInf | NaN

text \<open>
  The exponent \<open>e\<close> of \<open>a \<ge> 2\<^sup>-\<^sup>1\<^sup>0\<^sup>2\<^sup>2\<close>: the greatest \<open>e\<close> from \<open>-1022\<close> to \<open>1025\<close> with
  \<open>2\<^sup>e \<le> a\<close>, found by bisection.
\<close>

definition ilog2 :: "real \<Rightarrow> int" where
  "ilog2 a = foldl (\<lambda>e s. if 2 powi (e + s) \<le> a then e + s else e) (- 1022)
                [1024, 512, 256, 128, 64, 32, 16, 8, 4, 2, 1]"

definition round_half_even :: "real \<Rightarrow> int" where
  "round_half_even y =
     (let f = \<lfloor>y\<rfloor>; d = y - of_int f in
      if d < 1 / 2 then f else if 1 / 2 < d then f + 1 else if even f then f else f + 1)"

text \<open>The exponent of the spacing of the binary64 values around \<open>a \<ge> 0\<close>.\<close>

definition quantum :: "real \<Rightarrow> int" where
  "quantum a = (if a < 2 powi (- 1022) then - 1074 else ilog2 a - 52)"

definition round_to :: "int \<Rightarrow> real \<Rightarrow> real" where
  "round_to q a = of_int (round_half_even (a / 2 powi q)) * 2 powi q"

definition round_double :: "real \<Rightarrow> float64" where
  "round_double x =
     (let r = round_to (quantum \<bar>x\<bar>) \<bar>x\<bar>
      in if 2 powi 1024 \<le> r then (if 0 < x then PosInf else NegInf)
         else Finite (if 0 \<le> x then r else - r))"

text \<open>
  The arithmetic of floats: the exact result, rounded; the IEEE rules for infinities and
  NaN. Python's \<^verbatim>\<open>+\<close>, \<^verbatim>\<open>-\<close> and \<^verbatim>\<open>*\<close> on floats raise nothing (an overflow gives an
  infinity); \<^verbatim>\<open>/\<close> raises \<^verbatim>\<open>ZeroDivisionError\<close> when the divisor is zero, whatever the
  dividend.
\<close>

fun negative :: "float64 \<Rightarrow> bool" where
  "negative (Finite a) = (a < 0)"
| "negative NegInf = True"
| "negative _ = False"

fun fl_add :: "float64 \<Rightarrow> float64 \<Rightarrow> float64" where
  "fl_add (Finite a) (Finite b) = round_double (a + b)"
| "fl_add NaN _ = NaN"
| "fl_add _ NaN = NaN"
| "fl_add PosInf NegInf = NaN"
| "fl_add NegInf PosInf = NaN"
| "fl_add PosInf _ = PosInf"
| "fl_add _ PosInf = PosInf"
| "fl_add NegInf _ = NegInf"
| "fl_add _ NegInf = NegInf"

fun fl_sub :: "float64 \<Rightarrow> float64 \<Rightarrow> float64" where
  "fl_sub (Finite a) (Finite b) = round_double (a - b)"
| "fl_sub NaN _ = NaN"
| "fl_sub _ NaN = NaN"
| "fl_sub PosInf PosInf = NaN"
| "fl_sub NegInf NegInf = NaN"
| "fl_sub PosInf _ = PosInf"
| "fl_sub _ NegInf = PosInf"
| "fl_sub NegInf _ = NegInf"
| "fl_sub _ PosInf = NegInf"

fun fl_mul :: "float64 \<Rightarrow> float64 \<Rightarrow> float64" where
  "fl_mul (Finite a) (Finite b) = round_double (a * b)"
| "fl_mul NaN _ = NaN"
| "fl_mul _ NaN = NaN"
| "fl_mul x y =
     (if x = Finite 0 \<or> y = Finite 0 then NaN
      else if negative x = negative y then PosInf else NegInf)"

fun fl_div :: "float64 \<Rightarrow> float64 \<Rightarrow> error + float64" where
  "fl_div x (Finite b) =
     (if b = 0 then Inl ZeroDivisionError
      else Inr (case x of
                  Finite a \<Rightarrow> round_double (a / b)
                | NaN \<Rightarrow> NaN
                | _ \<Rightarrow> if negative x = (b < 0) then PosInf else NegInf))"
| "fl_div NaN _ = Inr NaN"
| "fl_div _ NaN = Inr NaN"
| "fl_div (Finite a) _ = Inr (Finite 0)"
| "fl_div _ _ = Inr NaN"

text \<open>
  The conversion of an integer to a float rounds to the nearest float and raises
  \<^verbatim>\<open>OverflowError\<close> when the integer is too large for a float. \<^verbatim>\<open>int(f)\<close> of a float
  truncates towards zero; it raises \<^verbatim>\<open>OverflowError\<close> on an infinity and \<^verbatim>\<open>ValueError\<close>
  on a NaN.
\<close>

definition int_to_float :: "int \<Rightarrow> error + float64" where
  "int_to_float i =
     (case round_double (of_int i) of Finite r \<Rightarrow> Inr (Finite r) | _ \<Rightarrow> Inl OverflowError)"

fun float_to_int :: "float64 \<Rightarrow> error + int" where
  "float_to_int (Finite r) = Inr (if 0 \<le> r then \<lfloor>r\<rfloor> else \<lceil>r\<rceil>)"
| "float_to_int NaN = Inl ValueError"
| "float_to_int _ = Inl OverflowError"

subsection \<open>Python numbers\<close>

text \<open>
  A coordinate is an integer (Python 2's \<^verbatim>\<open>int\<close> and \<^verbatim>\<open>long\<close>, which never overflow)
  or a float. An operator on two integers is exact; on an integer and a float the
  integer is converted to a float first. The module does not import \<^verbatim>\<open>division\<close> from
  \<^verbatim>\<open>__future__\<close>, so \<^verbatim>\<open>/\<close> on two integers is the floor division.
\<close>

datatype pynum = PyInt int | PyFloat float64

fun to_float :: "pynum \<Rightarrow> error + float64" where
  "to_float (PyInt i) = int_to_float i"
| "to_float (PyFloat f) = Inr f"

fun num_add :: "pynum \<Rightarrow> pynum \<Rightarrow> error + pynum" where
  "num_add (PyInt a) (PyInt b) = Inr (PyInt (a + b))"
| "num_add x y =
     and_then (to_float x) (\<lambda>a. and_then (to_float y) (\<lambda>b. Inr (PyFloat (fl_add a b))))"

fun num_sub :: "pynum \<Rightarrow> pynum \<Rightarrow> error + pynum" where
  "num_sub (PyInt a) (PyInt b) = Inr (PyInt (a - b))"
| "num_sub x y =
     and_then (to_float x) (\<lambda>a. and_then (to_float y) (\<lambda>b. Inr (PyFloat (fl_sub a b))))"

fun num_mul :: "pynum \<Rightarrow> pynum \<Rightarrow> error + pynum" where
  "num_mul (PyInt a) (PyInt b) = Inr (PyInt (a * b))"
| "num_mul x y =
     and_then (to_float x) (\<lambda>a. and_then (to_float y) (\<lambda>b. Inr (PyFloat (fl_mul a b))))"

fun num_div :: "pynum \<Rightarrow> pynum \<Rightarrow> error + pynum" where
  "num_div (PyInt a) (PyInt b) =
     (if b = 0 then Inl ZeroDivisionError else Inr (PyInt (a div b)))"
| "num_div x y =
     and_then (to_float x) (\<lambda>a. and_then (to_float y) (\<lambda>b.
       and_then (fl_div a b) (\<lambda>c. Inr (PyFloat c))))"

subsection \<open>Objects passed to int()\<close>

text \<open>
  \<^verbatim>\<open>coarsen\<close> passes the value of its keyword argument to \<^verbatim>\<open>int(...)\<close> and uses nothing
  else of it. The value is a number, or any other object, which is given by what
  \<^verbatim>\<open>int\<close> returns or raises on it: \<^verbatim>\<open>int(None)\<close> and \<^verbatim>\<open>int([2])\<close> raise \<^verbatim>\<open>TypeError\<close>,
  \<^verbatim>\<open>int('x')\<close> raises \<^verbatim>\<open>ValueError\<close>, \<^verbatim>\<open>int('3')\<close> returns 3.
\<close>

datatype pyobj = PyNum pynum | PyObj "error + int"

definition PyNone :: pyobj where
  "PyNone = PyObj (Inl TypeError)"

fun py_int :: "pyobj \<Rightarrow> error + int" where
  "py_int (PyNum (PyInt i)) = Inr i"
| "py_int (PyNum (PyFloat f)) = float_to_int f"
| "py_int (PyObj r) = r"

subsection \<open>Curve.auc\<close>

text \<open>
  \<^verbatim>\<open>
  points = self.points
  auc = sum((y0+y1) / 2. * (x0-x1) \
            for (x0, y0), (x1, y1) in izip(points, points[1:]))
  return auc
  \<close>
  \<^verbatim>\<open>izip\<close> stops at the shorter argument and \<^verbatim>\<open>points[1:]\<close> is the list without its first
  element (empty for the empty list). \<^verbatim>\<open>2.\<close> is the float 2.0, so the division is a
  float division. \<^verbatim>\<open>sum\<close> starts at the integer 0 and adds the items from the left, each
  as the generator yields it; the first expression that raises ends the call.
\<close>

definition trapezoid :: "(pynum \<times> pynum) \<times> (pynum \<times> pynum) \<Rightarrow> error + pynum" where
  "trapezoid = (\<lambda>((x0, y0), (x1, y1)).
     and_then (num_add y0 y1) (\<lambda>s.
     and_then (num_div s (PyFloat (Finite 2))) (\<lambda>h.
     and_then (num_sub x0 x1) (\<lambda>d. num_mul h d))))"

fun py_sum :: "pynum \<Rightarrow> (error + pynum) list \<Rightarrow> error + pynum" where
  "py_sum acc [] = Inr acc"
| "py_sum acc (Inl e # items) = Inl e"
| "py_sum acc (Inr v # items) = and_then (num_add acc v) (\<lambda>acc'. py_sum acc' items)"

definition auc :: "pynum curve \<Rightarrow> error + pynum" where
  "auc self =
     py_sum (PyInt 0) (map trapezoid (zip (points self) (drop 1 (points self))))"

subsection \<open>Python built-ins used by coarsen\<close>

text \<open>
  \<^verbatim>\<open>xs[i]\<close>: an index below zero counts from the end, and an index outside the list
  raises \<^verbatim>\<open>IndexError\<close>.
\<close>

definition py_getitem :: "'a list \<Rightarrow> int \<Rightarrow> error + 'a" where
  "py_getitem xs i =
     (if 0 \<le> i \<and> i < int (length xs) then Inr (xs ! nat i)
      else if i < 0 \<and> 0 \<le> int (length xs) + i then Inr (xs ! nat (int (length xs) + i))
      else Inl IndexError)"

text \<open>
  \<^verbatim>\<open>xs[::k]\<close>, the extended slice with neither bound given. A step of zero raises
  \<^verbatim>\<open>ValueError\<close>. For a positive step the slice starts at position 0, for a negative one
  at the last position, and it holds \<open>(n - 1) div |k| + 1\<close> elements of a list of
  \<open>n > 0\<close> elements. The slice is a new list.
\<close>

definition py_slice_step :: "'a list \<Rightarrow> int \<Rightarrow> error + 'a list" where
  "py_slice_step xs k =
     (if k = 0 then Inl ValueError
      else if xs = [] then Inr []
      else if 0 < k then
        Inr (map (\<lambda>i. xs ! (i * nat k)) [0..<(length xs - 1) div nat k + 1])
      else
        Inr (map (\<lambda>i. xs ! (length xs - 1 - i * nat (- k)))
               [0..<(length xs - 1) div nat (- k) + 1]))"

text \<open>
  \<^verbatim>\<open>xrange(lo, hi)\<close> runs over \<open>lo, \<dots>, hi - 1\<close>. Its arguments are C longs: a bound
  outside the range of a long raises \<^verbatim>\<open>OverflowError\<close> (a long of 64 bits here, as on
  the usual 64-bit builds of Python 2).
\<close>

definition py_xrange :: "int \<Rightarrow> int \<Rightarrow> error + int list" where
  "py_xrange lo hi =
     (if lo < - (2 ^ 63) \<or> 2 ^ 63 \<le> lo \<or> hi < - (2 ^ 63) \<or> 2 ^ 63 \<le> hi
      then Inl OverflowError
      else Inr [lo..hi - 1])"

text \<open>
  A list comprehension evaluates its elements in order; the first element that raises
  ends it with that exception.
\<close>

fun comprehension :: "(error + 'a) list \<Rightarrow> error + 'a list" where
  "comprehension [] = Inr []"
| "comprehension (Inl e # rs) = Inl e"
| "comprehension (Inr v # rs) =
     (case comprehension rs of Inl e \<Rightarrow> Inl e | Inr vs \<Rightarrow> Inr (v # vs))"

subsection \<open>Curve.coarsen\<close>

text \<open>
  The keyword arguments \<^verbatim>\<open>**kwds\<close> of \<^verbatim>\<open>coarsen\<close>: only the keys \<^verbatim>\<open>every\<close> and
  \<^verbatim>\<open>until\<close> are read; \<open>None\<close> is a key that is absent, \<open>Some v\<close> a key with the value
  \<open>v\<close>.

  The method mutates \<^verbatim>\<open>self._points\<close> and can raise, so the model returns the exception
  (\<open>None\<close> for a normal return) together with the curve as it is when the call ends.
\<close>

record kwds =
  every :: "pyobj option"
  until :: "pyobj option"

text \<open>
  \<^verbatim>\<open>
  k = int(kwds["every"])
  self._points = points[::k]
  if len(points) % k != 0:
      self._points.append(points[-1])
  return
  \<close>
  \<^verbatim>\<open>points\<close> is the list the curve held when the call began; the slice is a new list,
  so the \<^verbatim>\<open>append\<close> does not touch \<^verbatim>\<open>points\<close>. Python's \<^verbatim>\<open>%\<close> takes the sign of the
  divisor, as \<open>mod\<close> on \<open>int\<close> does.
\<close>

definition coarsen_every :: "pyobj \<Rightarrow> 'a curve \<Rightarrow> error option \<times> 'a curve" where
  "coarsen_every v self =
     (let pts = points self in
      case py_int v of
        Inl e \<Rightarrow> (Some e, self)
      | Inr k \<Rightarrow>
          (case py_slice_step pts k of
             Inl e \<Rightarrow> (Some e, self)
           | Inr sl \<Rightarrow>
               (let self1 = self\<lparr>points := sl\<rparr> in
                if int (length pts) mod k \<noteq> 0 then
                  (case py_getitem pts (- 1) of
                     Inl e \<Rightarrow> (Some e, self1)
                   | Inr p \<Rightarrow> (None, self1\<lparr>points := points self1 @ [p]\<rparr>))
                else (None, self1))))"

text \<open>
  \<^verbatim>\<open>
  k = int(kwds["until"])
  n = len(points)
  step = (n-1) / (k-1.)
  result = [points[int(idx*step)] for idx in xrange(1, k-1)]
  result.append(points[-1])
  self._points = result
  \<close>
  \<^verbatim>\<open>k-1.\<close> and the division are float operations, and so is \<^verbatim>\<open>idx*step\<close>: the position
  read is the truncation of a rounded product of a rounded quotient.
\<close>

definition until_item :: "('a \<times> 'a) list \<Rightarrow> pynum \<Rightarrow> int \<Rightarrow> error + 'a \<times> 'a" where
  "until_item pts step idx =
     and_then (num_mul (PyInt idx) step) (\<lambda>pos.
     and_then (py_int (PyNum pos)) (\<lambda>i. py_getitem pts i))"

definition coarsen_until :: "pyobj \<Rightarrow> 'a curve \<Rightarrow> error option \<times> 'a curve" where
  "coarsen_until v self =
     (let pts = points self in
      case py_int v of
        Inl e \<Rightarrow> (Some e, self)
      | Inr k \<Rightarrow>
          (let n = int (length pts) in
           case and_then (num_sub (PyInt k) (PyFloat (Finite 1)))
                  (\<lambda>d. num_div (PyInt (n - 1)) d) of
             Inl e \<Rightarrow> (Some e, self)
           | Inr step \<Rightarrow>
               (case and_then (py_xrange 1 (k - 1))
                       (\<lambda>idxs. comprehension (map (until_item pts step) idxs)) of
                  Inl e \<Rightarrow> (Some e, self)
                | Inr result \<Rightarrow>
                    (case py_getitem pts (- 1) of
                       Inl e \<Rightarrow> (Some e, self)
                     | Inr p \<Rightarrow> (None, self\<lparr>points := result @ [p]\<rparr>)))))"

text \<open>
  \<^verbatim>\<open>
  if "every" in kwds and "until" in kwds:
      raise TypeError("use either every=... or until=...")
  if "every" not in kwds and "until" not in kwds:
      raise TypeError("use either every=... or until=...")
  points = self.points
  if not points:
      return
  if "every" in kwds:
      ...
      return
  k = int(kwds["until"])
  ...
  \<close>
\<close>

definition coarsen :: "kwds \<Rightarrow> 'a curve \<Rightarrow> error option \<times> 'a curve" where
  "coarsen kw self =
     (if every kw \<noteq> None \<and> until kw \<noteq> None then (Some TypeError, self)
      else if every kw = None \<and> until kw = None then (Some TypeError, self)
      else if points self = [] then (None, self)
      else
        (case every kw of
           Some v \<Rightarrow> coarsen_every v self
         | None \<Rightarrow>
             (case until kw of
                Some v \<Rightarrow> coarsen_until v self
              | None \<Rightarrow> (Some KeyError, self))))"

subsection \<open>Curve.transform, Curve.transform_x, Curve.transform_y\<close>

text \<open>
  \<^verbatim>\<open>
  self._points = [transformation(*point) for point in self._points]
  self._points = [(transformation(x), y) for x, y in self._points]
  self._points = [(x, transformation(y)) for x, y in self._points]
  \<close>
  The callable is a total function (it returns for every argument and raises nothing).
\<close>

definition transform :: "('a \<Rightarrow> 'a \<Rightarrow> 'a \<times> 'a) \<Rightarrow> 'a curve \<Rightarrow> 'a curve" where
  "transform transformation self =
     self\<lparr>points := map (\<lambda>(x, y). transformation x y) (points self)\<rparr>"

definition transform_x :: "('a \<Rightarrow> 'a) \<Rightarrow> 'a curve \<Rightarrow> 'a curve" where
  "transform_x transformation self =
     self\<lparr>points := map (\<lambda>(x, y). (transformation x, y)) (points self)\<rparr>"

definition transform_y :: "('a \<Rightarrow> 'a) \<Rightarrow> 'a curve \<Rightarrow> 'a curve" where
  "transform_y transformation self =
     self\<lparr>points := map (\<lambda>(x, y). (x, transformation y)) (points self)\<rparr>"

subsection \<open>The classes of the module and super()\<close>

text \<open>
  The class statements of the module: \<^verbatim>\<open>Curve(object)\<close>,
  \<^verbatim>\<open>BinaryClassifierPerformanceCurve(Curve)\<close>, and four classes that derive from
  \<^verbatim>\<open>BinaryClassifierPerformanceCurve\<close>. With single inheritance the method resolution
  order of a class is the chain of its bases.
\<close>

datatype pyclass =
  Object | Curve | BinaryClassifierPerformanceCurve
  | ROCCurve | PrecisionRecallCurve | AccumulationCurve | CROCCurve

fun mro :: "pyclass \<Rightarrow> pyclass list" where
  "mro Object = [Object]"
| "mro Curve = [Curve, Object]"
| "mro BinaryClassifierPerformanceCurve = [BinaryClassifierPerformanceCurve, Curve, Object]"
| "mro ROCCurve = [ROCCurve, BinaryClassifierPerformanceCurve, Curve, Object]"
| "mro PrecisionRecallCurve =
     [PrecisionRecallCurve, BinaryClassifierPerformanceCurve, Curve, Object]"
| "mro AccumulationCurve =
     [AccumulationCurve, BinaryClassifierPerformanceCurve, Curve, Object]"
| "mro CROCCurve = [CROCCurve, BinaryClassifierPerformanceCurve, Curve, Object]"

text \<open>
  \<^verbatim>\<open>super(t, self)\<close> for an instance \<^verbatim>\<open>self\<close> of class \<open>c\<close>: Python raises
  \<^verbatim>\<open>TypeError\<close> (obj must be an instance or subtype of type) unless \<open>t\<close> is in the
  method resolution order of \<open>c\<close>; otherwise attribute lookup goes through the classes
  that follow \<open>t\<close> there.
\<close>

definition py_super :: "pyclass \<Rightarrow> pyclass \<Rightarrow> error + pyclass list" where
  "py_super t c =
     (if t \<in> set (mro c) then Inr (drop 1 (dropWhile (\<lambda>d. d \<noteq> t) (mro c)))
      else Inl TypeError)"

subsection \<open>BinaryClassifierPerformanceCurve and its subclasses\<close>

text \<open>
  The module \<^verbatim>\<open>yard.data\<close> (\<^verbatim>\<open>BinaryClassifierData\<close>, \<^verbatim>\<open>BinaryConfusionMatrix\<close>) is not
  among the sources. A dataset is taken as the sequence of (threshold, confusion matrix)
  pairs that its \<^verbatim>\<open>iter_confusion_matrices()\<close> yields, over any type \<open>'m\<close> of matrices,
  and the accessors of \<^verbatim>\<open>BinaryConfusionMatrix\<close> (\<^verbatim>\<open>fpr\<close>, \<^verbatim>\<open>tpr\<close>, \<^verbatim>\<open>fdp\<close>, \<^verbatim>\<open>recall\<close>,
  \<^verbatim>\<open>precision\<close>) are parameters.
\<close>

record 'm perf_curve = "pynum curve" +
  data :: "(pynum \<times> 'm) list"
  x_func :: "'m \<Rightarrow> pynum"
  y_func :: "'m \<Rightarrow> pynum"

text \<open>
  \<^verbatim>\<open>
  x_func, y_func = self.x_func, self.y_func
  self._points = [(x_func(mat), y_func(mat)) for _, mat in \
          self._data.iter_confusion_matrices()]
  \<close>
\<close>

definition calculate_points :: "'m perf_curve \<Rightarrow> 'm perf_curve" where
  "calculate_points self =
     self\<lparr>points := map (\<lambda>(_, mat). (x_func self mat, y_func self mat)) (data self)\<rparr>"

text \<open>
  \<^verbatim>\<open>BinaryClassifierPerformanceCurve.__init__(self, data, x_func, y_func)\<close> stores the two
  functions, checks that they are callable (a HOL function is), and assigns
  \<^verbatim>\<open>self.data\<close>, whose setter calls \<^verbatim>\<open>_calculate_points\<close>.
\<close>

definition BinaryClassifierPerformanceCurve_init ::
  "(pynum \<times> 'm) list \<Rightarrow> ('m \<Rightarrow> pynum) \<Rightarrow> ('m \<Rightarrow> pynum) \<Rightarrow> 'm perf_curve" where
  "BinaryClassifierPerformanceCurve_init d xf yf =
     calculate_points \<lparr>points = [], data = d, x_func = xf, y_func = yf\<rparr>"

text \<open>
  \<^verbatim>\<open>super(t, self).__init__(data, x_func, y_func)\<close> with \<^verbatim>\<open>self\<close> of class \<open>c\<close>. The
  only \<^verbatim>\<open>__init__\<close> of the module that takes these three arguments is the one of
  \<^verbatim>\<open>BinaryClassifierPerformanceCurve\<close>; any other one raises \<^verbatim>\<open>TypeError\<close> on them.
\<close>

definition super_init ::
  "pyclass \<Rightarrow> pyclass \<Rightarrow> (pynum \<times> 'm) list \<Rightarrow> ('m \<Rightarrow> pynum) \<Rightarrow> ('m \<Rightarrow> pynum)
    \<Rightarrow> error + 'm perf_curve" where
  "super_init t c d xf yf =
     (case py_super t c of
        Inl e \<Rightarrow> Inl e
      | Inr (BinaryClassifierPerformanceCurve # _) \<Rightarrow>
          Inr (BinaryClassifierPerformanceCurve_init d xf yf)
      | Inr _ \<Rightarrow> Inl TypeError)"

text \<open>
  \<^verbatim>\<open>
  class ROCCurve(BinaryClassifierPerformanceCurve):
      def __init__(self, data):
          super(ROCCurve, self).__init__(data, BinaryConfusionMatrix.fpr,
              BinaryConfusionMatrix.tpr)

  class PrecisionRecallCurve(BinaryClassifierPerformanceCurve):
      def __init__(self, data):
          super(PrecisionRecallCurve, self).__init__(data,
              BinaryConfusionMatrix.recall, BinaryConfusionMatrix.precision)

  class AccumulationCurve(BinaryClassifierPerformanceCurve):
      def __init__(self, data):
          super(PrecisionRecallCurve, self).__init__(data,
              BinaryConfusionMatrix.fdp, BinaryConfusionMatrix.tpr)
  \<close>
  Each constructor runs on a new instance of its own class.
\<close>

definition ROCCurve_init ::
  "('m \<Rightarrow> pynum) \<Rightarrow> ('m \<Rightarrow> pynum) \<Rightarrow> (pynum \<times> 'm) list \<Rightarrow> error + 'm perf_curve" where
  "ROCCurve_init fpr tpr d = super_init ROCCurve ROCCurve d fpr tpr"

definition PrecisionRecallCurve_init ::
  "('m \<Rightarrow> pynum) \<Rightarrow> ('m \<Rightarrow> pynum) \<Rightarrow> (pynum \<times> 'm) list \<Rightarrow> error + 'm perf_curve" where
  "PrecisionRecallCurve_init recall precision d =
     super_init PrecisionRecallCurve PrecisionRecallCurve d recall precision"

definition AccumulationCurve_init ::
  "('m \<Rightarrow> pynum) \<Rightarrow> ('m \<Rightarrow> pynum) \<Rightarrow> (pynum \<times> 'm) list \<Rightarrow> error + 'm perf_curve" where
  "AccumulationCurve_init fdp tpr d =
     super_init PrecisionRecallCurve AccumulationCurve d fdp tpr"

section \<open>The trapezoidal sum and exact arithmetic\<close>

text \<open>
  The notions that the statements about \<^verbatim>\<open>auc\<close> need; none of them is part of the
  program. A finite number stands for a real number, and a curve of finite numbers for
  its sequence of real coordinates.
\<close>

fun finite_num :: "pynum \<Rightarrow> bool" where
  "finite_num (PyInt i) = True"
| "finite_num (PyFloat (Finite r)) = True"
| "finite_num (PyFloat _) = False"

fun num_real :: "pynum \<Rightarrow> real" where
  "num_real (PyInt i) = of_int i"
| "num_real (PyFloat (Finite r)) = r"
| "num_real (PyFloat _) = 0"

definition real_point :: "pynum \<times> pynum \<Rightarrow> real \<times> real" where
  "real_point = (\<lambda>(x, y). (num_real x, num_real y))"

definition coords :: "pynum curve \<Rightarrow> (real \<times> real) list" where
  "coords self = map real_point (points self)"

text \<open>
  The signed trapezoidal sum in the words of the specification: for each adjacent pair
  \<open>((x0, y0), (x1, y1))\<close> in sequence order, \<open>(y0 + y1) / 2 * (x0 - x1)\<close>, summed over all
  adjacent pairs, in real arithmetic.
\<close>

definition trapezoidal_sum :: "(real \<times> real) list \<Rightarrow> real" where
  "trapezoidal_sum ps =
     (\<Sum>i = 0..<length ps - 1.
        (snd (ps ! i) + snd (ps ! Suc i)) / 2 * (fst (ps ! i) - fst (ps ! Suc i)))"

definition term_real :: "(real \<times> real) \<times> (real \<times> real) \<Rightarrow> real" where
  "term_real = (\<lambda>((x0, y0), (x1, y1)). (y0 + y1) / 2 * (x0 - x1))"

text \<open>
  A real number is representable when it is a binary64 value: rounding leaves it as it
  is (and does not overflow). No step of \<^verbatim>\<open>auc\<close> rounds on a curve when the coordinates
  are finite and representable and so are, for every adjacent pair, the sum of the
  ordinates, its half, the difference of the abscissae and their product, and every
  partial sum of the products.
\<close>

definition representable :: "real \<Rightarrow> bool" where
  "representable v \<longleftrightarrow> round_double v = Finite v"

definition exact_trapezoid :: "(real \<times> real) \<times> (real \<times> real) \<Rightarrow> bool" where
  "exact_trapezoid = (\<lambda>((x0, y0), (x1, y1)).
     representable x0 \<and> representable y0 \<and> representable x1 \<and> representable y1
     \<and> representable (y0 + y1) \<and> representable ((y0 + y1) / 2)
     \<and> representable (x0 - x1) \<and> representable ((y0 + y1) / 2 * (x0 - x1)))"

fun exact_partial_sums :: "real \<Rightarrow> real list \<Rightarrow> bool" where
  "exact_partial_sums a [] = True"
| "exact_partial_sums a (t # ts) = (representable (a + t) \<and> exact_partial_sums (a + t) ts)"

definition no_rounding :: "pynum curve \<Rightarrow> bool" where
  "no_rounding self \<longleftrightarrow>
     list_all (\<lambda>(x, y). finite_num x \<and> finite_num y) (points self)
     \<and> list_all exact_trapezoid (zip (coords self) (drop 1 (coords self)))
     \<and> exact_partial_sums 0 (map term_real (zip (coords self) (drop 1 (coords self))))"

section \<open>Properties\<close>

subsection \<open>Rounding\<close>

text \<open>
  The bisection never passes \<open>a\<close>, so the spacing that \<open>round_double\<close> uses at a number
  below \<open>2\<^sup>5\<^sup>3\<^sup>+\<^sup>q\<close> is at most \<open>2\<^sup>q\<close>: a number \<open>m * 2\<^sup>q\<close> with \<open>|m| < 2\<^sup>5\<^sup>3\<close> and
  \<open>-1074 \<le> q \<le> 971\<close> is a binary64 value, and rounding leaves it as it is.
\<close>

lemma ilog2_fold_le:
  "2 powi e \<le> a \<Longrightarrow>
   2 powi (foldl (\<lambda>e s. if 2 powi (e + s) \<le> a then e + s else e) e ss) \<le> (a::real)"
  by (induction ss arbitrary: e) simp_all

lemma ilog2_le: "2 powi (- 1022) \<le> a \<Longrightarrow> 2 powi (ilog2 a) \<le> a"
  unfolding ilog2_def by (rule ilog2_fold_le)

lemma round_half_even_of_int: "round_half_even (of_int n) = n"
  by (simp add: round_half_even_def)

lemma quantum_le:
  assumes "a < 2 powi (53 + q)" and "- 1074 \<le> q"
  shows "quantum a \<le> q"
proof (cases "a < 2 powi (- 1022)")
  case True
  then show ?thesis using assms(2) by (simp add: quantum_def)
next
  case False
  then have "2 powi (ilog2 a) \<le> a" by (intro ilog2_le) simp
  with assms(1) have "(2::real) powi (ilog2 a) < 2 powi (53 + q)" by simp
  then have "ilog2 a < 53 + q"
    by (metis power_int_increasing linorder_not_less one_le_numeral)
  with False show ?thesis by (simp add: quantum_def)
qed

lemma round_to_exact:
  assumes "Q \<le> q" and "0 \<le> m"
  shows "round_to Q (of_int m * 2 powi q) = of_int m * 2 powi q"
proof -
  have "(2::real) powi q = 2 powi (q - Q) * 2 powi Q"
    by (simp flip: power_int_add)
  moreover have "(2::real) powi (q - Q) = of_int (2 ^ nat (q - Q))"
    using assms(1) by (simp add: power_int_nonneg_exp)
  ultimately have eq: "of_int m * 2 powi q = of_int (m * 2 ^ nat (q - Q)) * (2::real) powi Q"
    by simp
  have "of_int m * 2 powi q / 2 powi Q = (of_int (m * 2 ^ nat (q - Q)) :: real)"
    unfolding eq by simp
  then have "round_to Q (of_int m * 2 powi q) = of_int (m * 2 ^ nat (q - Q)) * 2 powi Q"
    unfolding round_to_def by (simp only: round_half_even_of_int)
  also have "\<dots> = of_int m * 2 powi q"
    by (rule eq [symmetric])
  finally show ?thesis .
qed

lemma round_double_dyadic:
  assumes m: "\<bar>m\<bar> < 2 ^ 53" and q: "- 1074 \<le> q" "q \<le> 971"
  shows "round_double (of_int m * 2 powi q) = Finite (of_int m * 2 powi q)"
proof -
  let ?x = "of_int m * (2::real) powi q"
  have abs: "\<bar>?x\<bar> = of_int \<bar>m\<bar> * 2 powi q"
    by (simp add: abs_mult power_int_abs)
  have "of_int \<bar>m\<bar> < (2::real) ^ 53"
    using m by (metis of_int_less_iff of_int_numeral of_int_power)
  then have "of_int \<bar>m\<bar> * 2 powi q < (2::real) ^ 53 * 2 powi q"
    by (intro mult_strict_right_mono) simp_all
  also have "\<dots> = 2 powi (53 + q)"
    by (simp add: power_int_add)
  finally have lt: "\<bar>?x\<bar> < 2 powi (53 + q)"
    by (simp only: abs)
  have Q: "quantum \<bar>?x\<bar> \<le> q"
    using lt q(1) by (rule quantum_le)
  have r: "round_to (quantum \<bar>?x\<bar>) \<bar>?x\<bar> = \<bar>?x\<bar>"
    unfolding abs by (rule round_to_exact [OF Q [unfolded abs]]) simp
  have "(2::real) powi (53 + q) \<le> 2 powi 1024"
    using q(2) by (intro power_int_increasing) simp_all
  with lt have no: "\<not> 2 powi 1024 \<le> \<bar>?x\<bar>"
    by linarith
  show ?thesis
    unfolding round_double_def Let_def r using no by (simp only: if_False) simp
qed

lemma round_double_int:
  assumes "\<bar>i\<bar> < 2 ^ 53"
  shows "round_double (of_int i) = Finite (of_int i)"
  using round_double_dyadic [OF assms, of 0] by simp

lemma dyadic_values:
  "round_double 0 = Finite 0" "round_double 1 = Finite 1" "round_double 2 = Finite 2"
  "round_double 3 = Finite 3" "round_double 4 = Finite 4"
  "round_double (1 / 2) = Finite (1 / 2)" "round_double (1 / 4) = Finite (1 / 4)"
  "round_double (1 / 8) = Finite (1 / 8)" "round_double (3 / 2) = Finite (3 / 2)"
  "round_double (3 / 4) = Finite (3 / 4)" "round_double (3 / 8) = Finite (3 / 8)"
  "round_double (3 / 16) = Finite (3 / 16)" "round_double (7 / 4) = Finite (7 / 4)"
  "round_double (7 / 8) = Finite (7 / 8)" "round_double (21 / 16) = Finite (21 / 16)"
  using round_double_dyadic [of 0 0] round_double_dyadic [of 1 0] round_double_dyadic [of 1 1]
    round_double_dyadic [of 3 0] round_double_dyadic [of 1 2]
    round_double_dyadic [of 1 "- 1"] round_double_dyadic [of 1 "- 2"]
    round_double_dyadic [of 1 "- 3"] round_double_dyadic [of 3 "- 1"]
    round_double_dyadic [of 3 "- 2"] round_double_dyadic [of 3 "- 3"]
    round_double_dyadic [of 3 "- 4"] round_double_dyadic [of 7 "- 2"]
    round_double_dyadic [of 7 "- 3"] round_double_dyadic [of 21 "- 4"]
  by simp_all

text \<open>
  Numbers that are not binary64 values: \<open>1 + 2\<^sup>-\<^sup>5\<^sup>3\<close> lies halfway between 1 and the
  next value and rounds to 1, whose significand is even; \<open>2\<^sup>5\<^sup>3 + 1\<close> rounds to \<open>2\<^sup>5\<^sup>3\<close>
  likewise; \<open>1/2 - 2\<^sup>-\<^sup>5\<^sup>4 + 2\<^sup>-\<^sup>1\<^sup>0\<^sup>7\<close> rounds down to \<open>1/2 - 2\<^sup>-\<^sup>5\<^sup>4\<close>; and \<open>2\<^sup>1\<^sup>0\<^sup>2\<^sup>4\<close> is an
  overflow.
\<close>

lemma round_double_eval:
  assumes "0 \<le> x" and "quantum x = q" and "round_to q x = r"
  shows "round_double x = (if 2 powi 1024 \<le> r then (if 0 < x then PosInf else NegInf) else Finite r)"
  using assms by (simp add: round_double_def)

lemma quantum_E1: "quantum (1 + 1 / 2 ^ 53) = - 52"
  by (simp add: quantum_def ilog2_def)

lemma round_to_E1: "round_to (- 52) (1 + 1 / 2 ^ 53) = 1"
  by (simp add: round_to_def round_half_even_def Let_def)

lemma round_double_E1: "round_double (1 + 1 / 2 ^ 53) = Finite 1"
  by (subst round_double_eval [OF _ quantum_E1 round_to_E1]) simp_all




lemma quantum_E3: "quantum (2 ^ 1024) = 972"
  by (simp add: quantum_def ilog2_def)

lemma round_to_E3: "round_to 972 (2 ^ 1024) = 2 ^ 1024"
  by (simp add: round_to_def round_half_even_def Let_def)

lemma round_double_E3: "round_double (2 ^ 1024) = PosInf"
  by (subst round_double_eval [OF _ quantum_E3 round_to_E3]) simp_all

lemma quantum_E4: "quantum (2 ^ 53 + 1) = 1" by (simp add: quantum_def ilog2_def)

lemma round_to_E4: "round_to 1 (2 ^ 53 + 1) = 2 ^ 53"
  by (simp add: round_to_def round_half_even_def Let_def)

lemma round_double_E4: "round_double (2 ^ 53 + 1) = Finite (2 ^ 53)"
  by (subst round_double_eval [OF _ quantum_E4 round_to_E4]) simp_all

subsection \<open>Area under the curve\<close>

text \<open>
  When the exact result of an operation is representable, the operation returns it; so
  does a trapezoid, and so does the loop of \<^verbatim>\<open>sum\<close>.
\<close>

lemma and_then_Inr [simp]: "and_then (Inr v) f = f v"
  by (simp add: and_then_def)

lemma and_then_Inl [simp]: "and_then (Inl e) f = Inl e"
  by (simp add: and_then_def)

lemma representable_0: "representable 0"
  using round_double_int [of 0] by (simp add: representable_def)

lemma to_float_exact:
  "finite_num n \<Longrightarrow> representable (num_real n) \<Longrightarrow> to_float n = Inr (Finite (num_real n))"
  by (cases n rule: finite_num.cases) (simp_all add: int_to_float_def representable_def)

lemma num_add_exact:
  assumes "finite_num a" "finite_num b"
    and "representable (num_real a)" "representable (num_real b)"
    and "representable (num_real a + num_real b)"
  shows "\<exists>n. num_add a b = Inr n \<and> finite_num n \<and> num_real n = num_real a + num_real b"
proof (cases "\<exists>i j. a = PyInt i \<and> b = PyInt j")
  case True
  then show ?thesis by auto
next
  case False
  then have "num_add a b =
      and_then (to_float a) (\<lambda>x. and_then (to_float b) (\<lambda>y. Inr (PyFloat (fl_add x y))))"
    by (cases a; cases b) simp_all
  then have "num_add a b = Inr (PyFloat (Finite (num_real a + num_real b)))"
    using assms by (simp add: to_float_exact) (simp add: representable_def)
  then show ?thesis by simp
qed

lemma num_sub_exact:
  assumes "finite_num a" "finite_num b"
    and "representable (num_real a)" "representable (num_real b)"
    and "representable (num_real a - num_real b)"
  shows "\<exists>n. num_sub a b = Inr n \<and> finite_num n \<and> num_real n = num_real a - num_real b"
proof (cases "\<exists>i j. a = PyInt i \<and> b = PyInt j")
  case True
  then show ?thesis by auto
next
  case False
  then have "num_sub a b =
      and_then (to_float a) (\<lambda>x. and_then (to_float b) (\<lambda>y. Inr (PyFloat (fl_sub x y))))"
    by (cases a; cases b) simp_all
  then have "num_sub a b = Inr (PyFloat (Finite (num_real a - num_real b)))"
    using assms by (simp add: to_float_exact) (simp add: representable_def)
  then show ?thesis by simp
qed

lemma num_add_float_exact:
  assumes "finite_num a" "representable (num_real a)" "representable (num_real a + t)"
  shows "num_add a (PyFloat (Finite t)) = Inr (PyFloat (Finite (num_real a + t)))"
proof -
  have "num_add a (PyFloat (Finite t)) =
      and_then (to_float a) (\<lambda>x. Inr (PyFloat (fl_add x (Finite t))))"
    by (cases a) simp_all
  then show ?thesis
    using assms by (simp add: to_float_exact) (simp add: representable_def)
qed

lemma num_half_exact:
  assumes "finite_num s" "representable (num_real s)" "representable (num_real s / 2)"
  shows "num_div s (PyFloat (Finite 2)) = Inr (PyFloat (Finite (num_real s / 2)))"
proof -
  have "num_div s (PyFloat (Finite 2)) =
      and_then (to_float s) (\<lambda>x. and_then (fl_div x (Finite 2)) (\<lambda>c. Inr (PyFloat c)))"
    by (cases s) simp_all
  then show ?thesis
    using assms by (simp add: to_float_exact) (simp add: representable_def)
qed

lemma num_mul_float_exact:
  assumes "finite_num d" "representable (num_real d)" "representable (h * num_real d)"
  shows "num_mul (PyFloat (Finite h)) d = Inr (PyFloat (Finite (h * num_real d)))"
proof -
  have "num_mul (PyFloat (Finite h)) d =
      and_then (to_float d) (\<lambda>y. Inr (PyFloat (fl_mul (Finite h) y)))"
    by (cases d) simp_all
  then show ?thesis
    using assms by (simp add: to_float_exact) (simp add: representable_def)
qed

lemma trapezoid_exact:
  assumes fin: "finite_num x0" "finite_num y0" "finite_num x1" "finite_num y1"
    and ex: "exact_trapezoid ((num_real x0, num_real y0), (num_real x1, num_real y1))"
  shows "trapezoid ((x0, y0), (x1, y1)) =
     Inr (PyFloat (Finite (term_real ((num_real x0, num_real y0), (num_real x1, num_real y1)))))"
proof -
  from ex have r: "representable (num_real x0)" "representable (num_real y0)"
      "representable (num_real x1)" "representable (num_real y1)"
      "representable (num_real y0 + num_real y1)"
      "representable ((num_real y0 + num_real y1) / 2)"
      "representable (num_real x0 - num_real x1)"
      "representable ((num_real y0 + num_real y1) / 2 * (num_real x0 - num_real x1))"
    by (simp_all add: exact_trapezoid_def)
  obtain s where s: "num_add y0 y1 = Inr s" "finite_num s"
      "num_real s = num_real y0 + num_real y1"
    using num_add_exact [OF fin(2) fin(4) r(2) r(4) r(5)] by blast
  have h: "num_div s (PyFloat (Finite 2)) = Inr (PyFloat (Finite ((num_real y0 + num_real y1) / 2)))"
    using num_half_exact [OF s(2)] r(5,6) by (simp add: s(3))
  obtain d where d: "num_sub x0 x1 = Inr d" "finite_num d"
      "num_real d = num_real x0 - num_real x1"
    using num_sub_exact [OF fin(1) fin(3) r(1) r(3) r(7)] by blast
  have m: "num_mul (PyFloat (Finite ((num_real y0 + num_real y1) / 2))) d =
      Inr (PyFloat (Finite ((num_real y0 + num_real y1) / 2 * (num_real x0 - num_real x1))))"
    using num_mul_float_exact [OF d(2), of "(num_real y0 + num_real y1) / 2"] r(7,8)
    by (simp add: d(3))
  show ?thesis
    by (simp only: trapezoid_def term_real_def prod.case s(1) h d(1) m and_then_Inr)
qed

lemma zip_coords:
  "zip (coords self) (drop 1 (coords self)) =
     map (\<lambda>(p, q). (real_point p, real_point q)) (zip (points self) (drop 1 (points self)))"
  by (simp add: coords_def drop_map zip_map_map)

lemma py_sum_exact:
  assumes "finite_num acc" and "representable (num_real acc)"
    and "\<forall>(p, q) \<in> set zs. finite_num (fst p) \<and> finite_num (snd p)
            \<and> finite_num (fst q) \<and> finite_num (snd q)"
    and "list_all exact_trapezoid (map (\<lambda>(p, q). (real_point p, real_point q)) zs)"
    and "exact_partial_sums (num_real acc)
           (map term_real (map (\<lambda>(p, q). (real_point p, real_point q)) zs))"
  shows "py_sum acc (map trapezoid zs) =
     Inr (if zs = [] then acc
          else PyFloat (Finite (num_real acc
                 + sum_list (map term_real (map (\<lambda>(p, q). (real_point p, real_point q)) zs)))))"
  using assms
proof (induction zs arbitrary: acc)
  case Nil
  then show ?case by simp
next
  case (Cons z zs)
  obtain x0 y0 x1 y1 where z: "z = ((x0, y0), (x1, y1))"
    by (metis surj_pair)
  let ?t = "term_real ((num_real x0, num_real y0), (num_real x1, num_real y1))"
  have fin: "finite_num x0" "finite_num y0" "finite_num x1" "finite_num y1"
    using Cons.prems(3) by (simp_all add: z)
  have ex: "exact_trapezoid ((num_real x0, num_real y0), (num_real x1, num_real y1))"
    using Cons.prems(4) by (simp add: z real_point_def)
  have t: "trapezoid z = Inr (PyFloat (Finite ?t))"
    unfolding z using fin ex by (rule trapezoid_exact)
  have ps: "representable (num_real acc + ?t)"
      "exact_partial_sums (num_real acc + ?t)
         (map term_real (map (\<lambda>(p, q). (real_point p, real_point q)) zs))"
    using Cons.prems(5) by (simp_all add: z real_point_def)
  have add: "num_add acc (PyFloat (Finite ?t)) = Inr (PyFloat (Finite (num_real acc + ?t)))"
    using Cons.prems(1,2) ps(1) by (rule num_add_float_exact)
  have IH: "py_sum (PyFloat (Finite (num_real acc + ?t))) (map trapezoid zs) =
      Inr (if zs = [] then PyFloat (Finite (num_real acc + ?t))
           else PyFloat (Finite (num_real acc + ?t
                  + sum_list (map term_real (map (\<lambda>(p, q). (real_point p, real_point q)) zs)))))"
    using Cons.IH [of "PyFloat (Finite (num_real acc + ?t))"] Cons.prems(3,4) ps
    by simp
  have "py_sum acc (map trapezoid (z # zs)) =
      py_sum (PyFloat (Finite (num_real acc + ?t))) (map trapezoid zs)"
    by (simp only: list.map t py_sum.simps add and_then_Inr)
  also note IH
  finally show ?case
    by (simp add: z real_point_def add.assoc)
qed

lemma trapezoidal_sum_sum_list:
  "trapezoidal_sum ps = sum_list (map term_real (zip ps (drop 1 ps)))"
proof -
  have trap: "term_real (p, q) = (snd p + snd q) / 2 * (fst p - fst q)" for p q
    by (simp add: term_real_def split_beta)
  have "sum_list (map term_real (zip ps (drop 1 ps))) =
      (\<Sum>i = 0..<length ps - 1. map term_real (zip ps (drop 1 ps)) ! i)"
    by (simp add: sum_list_sum_nth)
  also have "\<dots> = trapezoidal_sum ps"
    unfolding trapezoidal_sum_def by (rule sum.cong [OF refl]) (simp add: trap)
  finally show ?thesis by simp
qed

lemma auc_exact:
  assumes "no_rounding self"
  shows "auc self =
     Inr (if length (points self) < 2 then PyInt 0
          else PyFloat (Finite (trapezoidal_sum (coords self))))"
proof -
  let ?zs = "zip (points self) (drop 1 (points self))"
  have fin: "\<forall>p \<in> set (points self). finite_num (fst p) \<and> finite_num (snd p)"
    using assms by (auto simp add: no_rounding_def list_all_iff)
  have "\<forall>(p, q) \<in> set ?zs. finite_num (fst p) \<and> finite_num (snd p)
            \<and> finite_num (fst q) \<and> finite_num (snd q)"
    using fin by (auto dest: set_zip_leftD set_zip_rightD in_set_dropD)
  moreover have "list_all exact_trapezoid (map (\<lambda>(p, q). (real_point p, real_point q)) ?zs)"
    using assms unfolding no_rounding_def zip_coords by blast
  moreover have "exact_partial_sums (num_real (PyInt 0))
      (map term_real (map (\<lambda>(p, q). (real_point p, real_point q)) ?zs))"
    using assms unfolding no_rounding_def zip_coords by simp
  moreover have "finite_num (PyInt 0)" "representable (num_real (PyInt 0))"
    by (simp_all add: representable_0)
  ultimately have "py_sum (PyInt 0) (map trapezoid ?zs) =
      Inr (if ?zs = [] then PyInt 0
           else PyFloat (Finite (num_real (PyInt 0)
                  + sum_list (map term_real (map (\<lambda>(p, q). (real_point p, real_point q)) ?zs)))))"
    by (intro py_sum_exact)
  moreover have "?zs = [] \<longleftrightarrow> length (points self) < 2"
    by (cases "points self" rule: list.exhaust; cases "tl (points self)") auto
  ultimately show ?thesis
    unfolding auc_def trapezoidal_sum_sum_list zip_coords by simp
qed

lemma auc_short: "length (points self) < 2 \<Longrightarrow> auc self = Inr (PyInt 0)"
proof -
  assume "length (points self) < 2"
  then have "zip (points self) (drop 1 (points self)) = []"
    by (cases "points self" rule: list.exhaust; cases "tl (points self)") auto
  then show ?thesis
    unfolding auc_def by (simp only: list.map py_sum.simps)
qed

text \<open>
  What the method returns where an operation rounds or overflows.
\<close>

lemma auc_rounds_sum:
  "auc \<lparr>points = [(PyFloat (Finite 1), PyFloat (Finite 1)),
                  (PyFloat (Finite 0), PyFloat (Finite (1 / 2 ^ 53)))]\<rparr>
     = Inr (PyFloat (Finite (1 / 2)))"
  by (simp add: auc_def trapezoid_def int_to_float_def
      round_double_E1 [simplified]
      round_double_dyadic [of 1 "- 1", simplified]
      round_double_dyadic [of 1 0, simplified]
      round_double_dyadic [of 0 0, simplified])

lemma auc_rounds_int:
  "auc \<lparr>points = [(PyInt (2 ^ 53 + 1), PyInt 2), (PyInt 0, PyInt 0)]\<rparr>
     = Inr (PyFloat (Finite (2 ^ 53)))"
  by (simp add: auc_def trapezoid_def int_to_float_def
      round_double_E4 [simplified]
      round_double_dyadic [of 1 53, simplified]
      round_double_dyadic [of 1 1, simplified]
      round_double_dyadic [of 1 0, simplified]
      round_double_dyadic [of 0 0, simplified])

lemma auc_overflows:
  "auc \<lparr>points = [(PyFloat (Finite 1), PyFloat (Finite (2 ^ 1023))),
                  (PyFloat (Finite 0), PyFloat (Finite (2 ^ 1023)))]\<rparr>
     = Inr (PyFloat PosInf)"
  by (simp add: auc_def trapezoid_def int_to_float_def
      round_double_E3 [simplified]
      round_double_dyadic [of 1 0, simplified]
      round_double_dyadic [of 0 0, simplified])


text \<open>
  C1: \<^verbatim>\<open>auc\<close> returns 0 for a series of fewer than two points. For a
  series of two or more points on which no step of the computation rounds or overflows,
  it returns the signed trapezoidal sum over the adjacent pairs of points in sequence
  order, \<open>(y0 + y1) / 2 * (x0 - x1)\<close> for the pair \<open>((x0, y0), (x1, y1))\<close>.
\<close>

theorem auc_exact_trapezoidal_sum:
  "(length (points self) < 2 \<longrightarrow> auc self = Inr (PyInt 0))
   \<and> (no_rounding self \<and> 2 \<le> length (points self) \<longrightarrow>
        auc self = Inr (PyFloat (Finite (trapezoidal_sum (coords self)))))"
  using auc_short [of self] auc_exact [of self] by simp

theorem auc_exact_trapezoidal_sum_witness:
  "auc \<lparr>points = [(PyInt 2, PyFloat (Finite 1)),
                  (PyFloat (Finite (1 / 2)), PyFloat (Finite (3 / 4))),
                  (PyInt 0, PyInt 0)]\<rparr> = Inr (PyFloat (Finite (3 / 2)))
   \<and> auc \<lparr>points = [(PyInt 3, PyInt 4)]\<rparr> = Inr (PyInt 0)
   \<and> auc \<lparr>points = []\<rparr> = Inr (PyInt 0)"
proof -
  let ?c = "\<lparr>points = [(PyInt 2, PyFloat (Finite 1)),
                  (PyFloat (Finite (1 / 2)), PyFloat (Finite (3 / 4))),
                  (PyInt 0, PyInt 0)]\<rparr>"
  have nr: "no_rounding ?c"
    by (simp add: no_rounding_def coords_def real_point_def exact_trapezoid_def term_real_def
        representable_def dyadic_values)
  have ts: "trapezoidal_sum (coords ?c) = 3 / 2"
    by (simp add: trapezoidal_sum_def coords_def real_point_def numeral_2_eq_2)
  show ?thesis
    using auc_exact_trapezoidal_sum [of ?c] auc_exact_trapezoidal_sum [of "\<lparr>points = [(PyInt 3, PyInt 4)]\<rparr>"]
      auc_exact_trapezoidal_sum [of "\<lparr>points = []\<rparr>"] nr ts
    by simp
qed

text \<open>
  C1 needs the condition: the equation does not hold for every point series, since the
  float arithmetic rounds. On \<open>[(1.0, 1.0), (0.0, 2\<^sup>-\<^sup>5\<^sup>3)]\<close> the sum \<open>1 + 2\<^sup>-\<^sup>5\<^sup>3\<close> rounds to
  1 and the method returns 0.5, while the trapezoidal sum is \<open>1/2 + 2\<^sup>-\<^sup>5\<^sup>4\<close>; on the integer points
  \<open>[(2\<^sup>5\<^sup>3 + 1, 2), (0, 0)]\<close> the conversion of \<open>2\<^sup>5\<^sup>3 + 1\<close> to a float rounds and the
  method returns \<open>2\<^sup>5\<^sup>3\<close>; on \<open>[(1.0, 2\<^sup>1\<^sup>0\<^sup>2\<^sup>3), (0.0, 2\<^sup>1\<^sup>0\<^sup>2\<^sup>3)]\<close> the sum of the ordinates
  overflows and the method returns an infinity.
\<close>

theorem auc_rounding_counterexample:
  "auc \<lparr>points = [(PyFloat (Finite 1), PyFloat (Finite 1)),
                  (PyFloat (Finite 0), PyFloat (Finite (1 / 2 ^ 53)))]\<rparr>
     = Inr (PyFloat (Finite (1 / 2)))
   \<and> trapezoidal_sum (coords \<lparr>points = [(PyFloat (Finite 1), PyFloat (Finite 1)),
                  (PyFloat (Finite 0), PyFloat (Finite (1 / 2 ^ 53)))]\<rparr>)
     = 1 / 2 + 1 / 2 ^ 54
   \<and> auc \<lparr>points = [(PyInt (2 ^ 53 + 1), PyInt 2), (PyInt 0, PyInt 0)]\<rparr>
     = Inr (PyFloat (Finite (2 ^ 53)))
   \<and> trapezoidal_sum (coords \<lparr>points = [(PyInt (2 ^ 53 + 1), PyInt 2), (PyInt 0, PyInt 0)]\<rparr>)
     = 2 ^ 53 + 1
   \<and> auc \<lparr>points = [(PyFloat (Finite 1), PyFloat (Finite (2 ^ 1023))),
                  (PyFloat (Finite 0), PyFloat (Finite (2 ^ 1023)))]\<rparr>
     = Inr (PyFloat PosInf)"
proof (intro conjI)
  show "auc \<lparr>points = [(PyFloat (Finite 1), PyFloat (Finite 1)),
                  (PyFloat (Finite 0), PyFloat (Finite (1 / 2 ^ 53)))]\<rparr>
     = Inr (PyFloat (Finite (1 / 2)))"
    by (rule auc_rounds_sum)
  show "auc \<lparr>points = [(PyInt (2 ^ 53 + 1), PyInt 2), (PyInt 0, PyInt 0)]\<rparr>
     = Inr (PyFloat (Finite (2 ^ 53)))"
    by (rule auc_rounds_int)
  show "auc \<lparr>points = [(PyFloat (Finite 1), PyFloat (Finite (2 ^ 1023))),
                  (PyFloat (Finite 0), PyFloat (Finite (2 ^ 1023)))]\<rparr>
     = Inr (PyFloat PosInf)"
    by (rule auc_overflows)
qed (simp_all add: trapezoidal_sum_def coords_def real_point_def)






subsection \<open>Exceptions of coarsen\<close>

lemma py_getitem_last: "xs \<noteq> [] \<Longrightarrow> py_getitem xs (- 1) = Inr (last xs)"
  by (cases xs rule: rev_cases) (simp_all add: py_getitem_def nat_add_distrib)

lemma py_getitem_error: "py_getitem xs i = Inl e \<Longrightarrow> e = IndexError"
  by (simp add: py_getitem_def split: if_splits)

lemma comprehension_error: "comprehension rs = Inl e \<Longrightarrow> Inl e \<in> set rs"
  by (induction rs rule: comprehension.induct) (auto split: sum.splits)

lemma comprehension_length: "comprehension rs = Inr vs \<Longrightarrow> length vs = length rs"
  by (induction rs arbitrary: vs rule: comprehension.induct) (auto split: sum.splits)

lemma and_then_error: "and_then r f = Inl e \<Longrightarrow> r = Inl e \<or> (\<exists>v. r = Inr v \<and> f v = Inl e)"
  by (cases r) simp_all

lemma int_to_float_error: "int_to_float i = Inl e \<Longrightarrow> e = OverflowError"
  by (simp add: int_to_float_def split: float64.splits)

lemma float_to_int_error: "float_to_int f = Inl e \<Longrightarrow> e \<noteq> TypeError"
  by (cases f) auto

lemma to_float_error: "to_float x = Inl e \<Longrightarrow> e = OverflowError"
  by (cases x) (auto dest: int_to_float_error)

lemma fl_div_error: "fl_div a b = Inl e \<Longrightarrow> e = ZeroDivisionError"
  by (cases "(a, b)" rule: fl_div.cases) (auto split: if_splits)

lemma num_sub_error: "num_sub x y = Inl e \<Longrightarrow> e = OverflowError"
  by (cases "(x, y)" rule: num_sub.cases) (auto dest!: and_then_error to_float_error)

lemma num_mul_error: "num_mul x y = Inl e \<Longrightarrow> e = OverflowError"
  by (cases "(x, y)" rule: num_mul.cases) (auto dest!: and_then_error to_float_error)

lemma num_div_error: "num_div x y = Inl e \<Longrightarrow> e = OverflowError \<or> e = ZeroDivisionError"
  by (cases "(x, y)" rule: num_div.cases)
     (auto dest!: and_then_error to_float_error fl_div_error split: if_splits)

lemma py_xrange_error: "py_xrange lo hi = Inl e \<Longrightarrow> e = OverflowError"
  by (simp add: py_xrange_def split: if_splits)

lemma py_int_num_error: "py_int (PyNum p) = Inl e \<Longrightarrow> e \<noteq> TypeError"
  by (cases p) (auto dest: float_to_int_error)

lemma until_item_error: "until_item pts step idx = Inl e \<Longrightarrow> e \<noteq> TypeError"
  unfolding until_item_def
  by (auto dest!: and_then_error num_mul_error py_getitem_error py_int_num_error)

lemma coarsen_every_conv_error:
  "py_int v = Inl e \<Longrightarrow> coarsen_every v self = (Some e, self)"
  by (simp add: coarsen_every_def)

lemma coarsen_every_zero:
  "py_int v = Inr 0 \<Longrightarrow> coarsen_every v self = (Some ValueError, self)"
  by (simp add: coarsen_every_def py_slice_step_def)

lemma coarsen_every_nonzero:
  assumes "points self \<noteq> []" and "py_int v = Inr k" and "k \<noteq> 0"
  shows "\<exists>sl. py_slice_step (points self) k = Inr sl \<and> coarsen_every v self =
     (None, self\<lparr>points :=
        (if int (length (points self)) mod k \<noteq> 0 then sl @ [last (points self)] else sl)\<rparr>)"
  using assms
  by (simp add: coarsen_every_def py_getitem_last py_slice_step_def Let_def)

lemma coarsen_every_raised:
  assumes "points self \<noteq> []"
  shows "fst (coarsen_every v self) =
           (case py_int v of Inl e \<Rightarrow> Some e
            | Inr k \<Rightarrow> if k = 0 then Some ValueError else None)"
    and "fst (coarsen_every v self) = Some e \<Longrightarrow> snd (coarsen_every v self) = self"
proof -
  show "fst (coarsen_every v self) =
           (case py_int v of Inl e \<Rightarrow> Some e
            | Inr k \<Rightarrow> if k = 0 then Some ValueError else None)"
  proof (cases "py_int v")
    case (Inl e')
    then show ?thesis by (simp add: coarsen_every_conv_error)
  next
    case (Inr k)
    then show ?thesis
      using coarsen_every_nonzero [OF assms Inr] coarsen_every_zero [of v self]
      by (cases "k = 0") auto
  qed
  show "snd (coarsen_every v self) = self" if "fst (coarsen_every v self) = Some e"
  proof (cases "py_int v")
    case (Inl e')
    then show ?thesis by (simp add: coarsen_every_conv_error)
  next
    case (Inr k)
    then show ?thesis
      using that coarsen_every_nonzero [OF assms Inr] coarsen_every_zero [of v self]
      by (cases "k = 0") auto
  qed
qed

lemma coarsen_until_unchanged:
  "fst (coarsen_until v self) = Some e \<Longrightarrow> snd (coarsen_until v self) = self"
  by (auto simp add: coarsen_until_def Let_def split: sum.splits)

lemma coarsen_until_TypeError:
  "fst (coarsen_until v self) = Some TypeError \<longleftrightarrow> py_int v = Inl TypeError"
proof (cases "py_int v")
  case (Inl e)
  then show ?thesis by (simp add: coarsen_until_def)
next
  case (Inr k)
  have step: "e \<noteq> TypeError"
    if "and_then (num_sub (PyInt k) (PyFloat (Finite 1)))
          (\<lambda>d. num_div (PyInt (int (length (points self)) - 1)) d) = Inl e" for e
    using that
    by (auto simp del: num_sub.simps num_div.simps
        dest!: and_then_error dest: num_sub_error num_div_error)
  have items: "e \<noteq> TypeError"
    if "and_then (py_xrange 1 (k - 1))
          (\<lambda>idxs. comprehension (map (until_item (points self) step) idxs)) = Inl e"
    for e step
    using that
    by (auto dest!: and_then_error py_xrange_error comprehension_error
        dest: until_item_error [OF sym])
  have last: "e \<noteq> TypeError" if "py_getitem (points self) (- 1) = Inl e" for e
    using that by (auto dest: py_getitem_error)
  show ?thesis
    using step items last
    by (auto simp add: coarsen_until_def Let_def Inr split: sum.splits)
qed

text \<open>
  C5: a call of \<^verbatim>\<open>coarsen\<close> that raises leaves the curve as it was before the call.
  Every \<^verbatim>\<open>raise\<close> of the method, the exceptions of \<^verbatim>\<open>int(...)\<close>, the \<^verbatim>\<open>ValueError\<close> of a
  slice step of zero, and the exceptions of the float arithmetic, of \<^verbatim>\<open>xrange\<close> and of the
  comprehension of \<^verbatim>\<open>until\<close> come before the first assignment to \<^verbatim>\<open>self._points\<close>, and
  the \<^verbatim>\<open>append\<close> after the assignment of the slice reads a non-empty list.
\<close>

theorem coarsen_failure_atomic:
  "fst (coarsen kw self) = Some e \<Longrightarrow> snd (coarsen kw self) = self"
  using coarsen_every_raised(2) [of self] coarsen_until_unchanged [of _ self]
  by (auto simp add: coarsen_def split: option.splits if_splits)

theorem coarsen_failure_atomic_witness:
  "fst (coarsen \<lparr>every = Some (PyNum (PyInt 0)), until = None\<rparr>
         \<lparr>points = [(PyInt 0, PyInt 0), (PyInt 1, PyInt 1)]\<rparr>) = Some ValueError
   \<and> snd (coarsen \<lparr>every = Some (PyNum (PyInt 0)), until = None\<rparr>
         \<lparr>points = [(PyInt 0, PyInt 0), (PyInt 1, PyInt 1)]\<rparr>)
       = \<lparr>points = [(PyInt 0, PyInt 0), (PyInt 1, PyInt 1)]\<rparr>
   \<and> fst (coarsen \<lparr>every = None, until = Some (PyNum (PyInt 1))\<rparr>
         \<lparr>points = [(PyInt 0, PyInt 0), (PyInt 1, PyInt 1)]\<rparr>) = Some ZeroDivisionError
   \<and> snd (coarsen \<lparr>every = None, until = Some (PyNum (PyInt 1))\<rparr>
         \<lparr>points = [(PyInt 0, PyInt 0), (PyInt 1, PyInt 1)]\<rparr>)
       = \<lparr>points = [(PyInt 0, PyInt 0), (PyInt 1, PyInt 1)]\<rparr>
   \<and> fst (coarsen \<lparr>every = Some PyNone, until = None\<rparr>
         \<lparr>points = [(PyInt 0, PyInt 0), (PyInt 1, PyInt 1)]\<rparr>) = Some TypeError
   \<and> snd (coarsen \<lparr>every = Some PyNone, until = None\<rparr>
         \<lparr>points = [(PyInt 0, PyInt 0), (PyInt 1, PyInt 1)]\<rparr>)
       = \<lparr>points = [(PyInt 0, PyInt 0), (PyInt 1, PyInt 1)]\<rparr>"
proof -
  let ?c = "\<lparr>points = [(PyInt 0, PyInt 0), (PyInt 1, PyInt 1)]\<rparr>"
  have a: "fst (coarsen \<lparr>every = Some (PyNum (PyInt 0)), until = None\<rparr> ?c) = Some ValueError"
    by (simp add: coarsen_def coarsen_every_def py_slice_step_def)
  have b: "fst (coarsen \<lparr>every = None, until = Some (PyNum (PyInt 1))\<rparr> ?c)
      = Some ZeroDivisionError"
    by (simp add: coarsen_def coarsen_until_def int_to_float_def dyadic_values)
  have c: "fst (coarsen \<lparr>every = Some PyNone, until = None\<rparr> ?c) = Some TypeError"
    by (simp add: coarsen_def coarsen_every_def PyNone_def)
  from a b c coarsen_failure_atomic [OF a] coarsen_failure_atomic [OF b]
    coarsen_failure_atomic [OF c]
  show ?thesis by simp
qed

text \<open>
  C6: \<^verbatim>\<open>coarsen\<close> raises \<^verbatim>\<open>TypeError\<close>, its error for a wrong use of the
  keyword arguments, whenever both \<^verbatim>\<open>every\<close> and \<^verbatim>\<open>until\<close> are given or neither is.
  Called with exactly one of them, it raises \<^verbatim>\<open>TypeError\<close> exactly when the series is
  not empty and \<^verbatim>\<open>int(...)\<close> of the value of the mode raises \<^verbatim>\<open>TypeError\<close>; on an integer
  value it never does. The other exceptions of a call with one mode are of other
  classes: \<^verbatim>\<open>every=0\<close> raises \<^verbatim>\<open>ValueError\<close> and \<^verbatim>\<open>until=1\<close> raises
  \<^verbatim>\<open>ZeroDivisionError\<close> on a series that is not empty (of at most \<open>2\<^sup>5\<^sup>3\<close> points, so that
  its length converts to a float as it is).
\<close>

theorem coarsen_TypeError_modes:
  "((every kw \<noteq> None \<and> until kw \<noteq> None) \<or> (every kw = None \<and> until kw = None)
      \<longrightarrow> fst (coarsen kw self) = Some TypeError)
   \<and> (every kw = Some v \<and> until kw = None \<longrightarrow>
        (fst (coarsen kw self) = Some TypeError
           \<longleftrightarrow> points self \<noteq> [] \<and> py_int v = Inl TypeError))
   \<and> (every kw = None \<and> until kw = Some v \<longrightarrow>
        (fst (coarsen kw self) = Some TypeError
           \<longleftrightarrow> points self \<noteq> [] \<and> py_int v = Inl TypeError))
   \<and> (points self \<noteq> [] \<and> every kw = Some (PyNum (PyInt 0)) \<and> until kw = None
        \<longrightarrow> fst (coarsen kw self) = Some ValueError)
   \<and> (points self \<noteq> [] \<and> length (points self) \<le> 2 ^ 53
        \<and> every kw = None \<and> until kw = Some (PyNum (PyInt 1))
        \<longrightarrow> fst (coarsen kw self) = Some ZeroDivisionError)"
proof (intro conjI impI)
  assume "(every kw \<noteq> None \<and> until kw \<noteq> None) \<or> (every kw = None \<and> until kw = None)"
  then show "fst (coarsen kw self) = Some TypeError"
    by (auto simp add: coarsen_def)
next
  assume m: "every kw = Some v \<and> until kw = None"
  show "fst (coarsen kw self) = Some TypeError
      \<longleftrightarrow> points self \<noteq> [] \<and> py_int v = Inl TypeError"
  proof (cases "points self = []")
    case True
    with m show ?thesis by (simp add: coarsen_def)
  next
    case False
    with m have "coarsen kw self = coarsen_every v self"
      by (simp add: coarsen_def)
    with False show ?thesis
      by (auto simp add: coarsen_every_raised(1) split: sum.splits if_splits)
  qed
next
  assume m: "every kw = None \<and> until kw = Some v"
  show "fst (coarsen kw self) = Some TypeError
      \<longleftrightarrow> points self \<noteq> [] \<and> py_int v = Inl TypeError"
  proof (cases "points self = []")
    case True
    with m show ?thesis by (simp add: coarsen_def)
  next
    case False
    with m have "coarsen kw self = coarsen_until v self"
      by (simp add: coarsen_def)
    with False show ?thesis
      by (simp add: coarsen_until_TypeError)
  qed
next
  assume "points self \<noteq> [] \<and> every kw = Some (PyNum (PyInt 0)) \<and> until kw = None"
  then show "fst (coarsen kw self) = Some ValueError"
    by (simp add: coarsen_def coarsen_every_zero)
next
  assume a: "points self \<noteq> [] \<and> length (points self) \<le> 2 ^ 53
      \<and> every kw = None \<and> until kw = Some (PyNum (PyInt 1))"
  have "round_double 0 = Finite 0"
    using round_double_int [of 0] by simp
  then have d: "num_sub (PyInt 1) (PyFloat (Finite 1)) = Inr (PyFloat (Finite 0))"
    using round_double_int [of 1] by (simp add: int_to_float_def)
  have "\<bar>int (length (points self)) - 1\<bar> < 2 ^ 53"
    using a by simp
  then have "int_to_float (int (length (points self)) - 1)
      = Inr (Finite (of_int (int (length (points self)) - 1)))"
    by (simp only: int_to_float_def round_double_int float64.case)
  then have "num_div (PyInt (int (length (points self)) - 1)) (PyFloat (Finite 0))
      = Inl ZeroDivisionError"
    by simp
  with d have "coarsen_until (PyNum (PyInt 1)) self = (Some ZeroDivisionError, self)"
    by (simp add: coarsen_until_def)
  with a show "fst (coarsen kw self) = Some ZeroDivisionError"
    by (simp add: coarsen_def)
qed

theorem coarsen_TypeError_modes_witness:
  "fst (coarsen \<lparr>every = Some (PyNum (PyInt 2)), until = Some (PyNum (PyInt 3))\<rparr>
         \<lparr>points = [(PyInt 0, PyInt 0), (PyInt 1, PyInt 1)]\<rparr>) = Some TypeError
   \<and> fst (coarsen \<lparr>every = None, until = None\<rparr>
         \<lparr>points = [(PyInt 0, PyInt 0), (PyInt 1, PyInt 1)]\<rparr>) = Some TypeError
   \<and> fst (coarsen \<lparr>every = Some PyNone, until = None\<rparr>
         \<lparr>points = [(PyInt 0, PyInt 0), (PyInt 1, PyInt 1)]\<rparr>) = Some TypeError
   \<and> fst (coarsen \<lparr>every = Some (PyNum (PyInt 2)), until = None\<rparr>
         \<lparr>points = [(PyInt 0, PyInt 0), (PyInt 1, PyInt 1)]\<rparr>) \<noteq> Some TypeError
   \<and> fst (coarsen \<lparr>every = None, until = Some (PyNum (PyInt 2))\<rparr>
         \<lparr>points = [(PyInt 0, PyInt 0), (PyInt 1, PyInt 1)]\<rparr>) \<noteq> Some TypeError
   \<and> fst (coarsen \<lparr>every = Some (PyNum (PyInt 0)), until = None\<rparr>
         \<lparr>points = [(PyInt 0, PyInt 0), (PyInt 1, PyInt 1)]\<rparr>) = Some ValueError
   \<and> fst (coarsen \<lparr>every = None, until = Some (PyNum (PyInt 1))\<rparr>
         \<lparr>points = [(PyInt 0, PyInt 0), (PyInt 1, PyInt 1)]\<rparr>) = Some ZeroDivisionError"
  using
    coarsen_TypeError_modes [of "\<lparr>every = Some (PyNum (PyInt 2)), until = Some (PyNum (PyInt 3))\<rparr>"
      "\<lparr>points = [(PyInt 0, PyInt 0), (PyInt 1, PyInt 1)]\<rparr>" "PyNone"]
    coarsen_TypeError_modes [of "\<lparr>every = None, until = None\<rparr>"
      "\<lparr>points = [(PyInt 0, PyInt 0), (PyInt 1, PyInt 1)]\<rparr>" "PyNone"]
    coarsen_TypeError_modes [of "\<lparr>every = Some PyNone, until = None\<rparr>"
      "\<lparr>points = [(PyInt 0, PyInt 0), (PyInt 1, PyInt 1)]\<rparr>" "PyNone"]
    coarsen_TypeError_modes [of "\<lparr>every = Some (PyNum (PyInt 2)), until = None\<rparr>"
      "\<lparr>points = [(PyInt 0, PyInt 0), (PyInt 1, PyInt 1)]\<rparr>" "PyNum (PyInt 2)"]
    coarsen_TypeError_modes [of "\<lparr>every = None, until = Some (PyNum (PyInt 2))\<rparr>"
      "\<lparr>points = [(PyInt 0, PyInt 0), (PyInt 1, PyInt 1)]\<rparr>" "PyNum (PyInt 2)"]
    coarsen_TypeError_modes [of "\<lparr>every = Some (PyNum (PyInt 0)), until = None\<rparr>"
      "\<lparr>points = [(PyInt 0, PyInt 0), (PyInt 1, PyInt 1)]\<rparr>" "PyNum (PyInt 0)"]
    coarsen_TypeError_modes [of "\<lparr>every = None, until = Some (PyNum (PyInt 1))\<rparr>"
      "\<lparr>points = [(PyInt 0, PyInt 0), (PyInt 1, PyInt 1)]\<rparr>" "PyNum (PyInt 1)"]
  by (simp add: PyNone_def)

text \<open>
  C6 cannot say "only if both modes or neither": \<^verbatim>\<open>coarsen(every=None)\<close> on two points
  gives exactly one mode and raises \<^verbatim>\<open>TypeError\<close>, from \<^verbatim>\<open>int(None)\<close>; and
  \<^verbatim>\<open>coarsen(every=0)\<close> is rejected too, with a \<^verbatim>\<open>ValueError\<close>.
\<close>

theorem coarsen_TypeError_counterexample:
  "fst (coarsen \<lparr>every = Some PyNone, until = None\<rparr>
         \<lparr>points = [(PyInt 0, PyInt 0), (PyInt 1, PyInt 1)]\<rparr>) = Some TypeError
   \<and> every \<lparr>every = Some PyNone, until = None\<rparr> \<noteq> None
   \<and> until \<lparr>every = Some PyNone, until = None\<rparr> = None
   \<and> fst (coarsen \<lparr>every = Some (PyNum (PyInt 0)), until = None\<rparr>
         \<lparr>points = [(PyInt 0, PyInt 0), (PyInt 1, PyInt 1)]\<rparr>) = Some ValueError"
  by (simp add: coarsen_def coarsen_every_def py_slice_step_def PyNone_def)

text \<open>
  C7: on the empty curve, \<^verbatim>\<open>coarsen\<close> called with exactly one of \<^verbatim>\<open>every=k\<close> and
  \<^verbatim>\<open>until=k\<close> returns normally and leaves the curve unchanged, whatever \<open>k\<close> is: the
  method returns at \<^verbatim>\<open>if not points\<close>, before it reads \<open>k\<close>.
\<close>

theorem coarsen_empty_noop:
  "points self = [] \<Longrightarrow> (every kw = None) \<noteq> (until kw = None) \<Longrightarrow>
     coarsen kw self = (None, self)"
  by (auto simp add: coarsen_def)

theorem coarsen_empty_noop_witness:
  "coarsen \<lparr>every = Some (PyNum (PyInt 0)), until = None\<rparr> \<lparr>points = []\<rparr>
     = (None, \<lparr>points = []\<rparr>)
   \<and> coarsen \<lparr>every = None, until = Some (PyNum (PyInt 1))\<rparr> \<lparr>points = []\<rparr>
     = (None, \<lparr>points = []\<rparr>)
   \<and> coarsen \<lparr>every = Some PyNone, until = None\<rparr> \<lparr>points = []\<rparr>
     = (None, \<lparr>points = []\<rparr>)"
  using coarsen_empty_noop [of "\<lparr>points = []\<rparr>" "\<lparr>every = Some (PyNum (PyInt 0)), until = None\<rparr>"]
    coarsen_empty_noop [of "\<lparr>points = []\<rparr>" "\<lparr>every = None, until = Some (PyNum (PyInt 1))\<rparr>"]
    coarsen_empty_noop [of "\<lparr>points = []\<rparr>" "\<lparr>every = Some PyNone, until = None\<rparr>"]
  by simp

subsection \<open>What coarsen(every=k) keeps\<close>

text \<open>
  For a positive integer step on a non-empty curve of \<open>n\<close> points the method keeps the positions
  \<open>0, k, 2k, \<dots>\<close> and appends the last point when \<open>n mod k \<noteq> 0\<close>; the first point is
  kept, and the number of points kept is \<open>\<lceil>n / k\<rceil>\<close>, plus one when \<open>k\<close> does not divide
  \<open>n\<close>.
\<close>

lemma coarsen_every_general:
  assumes ne: "points self \<noteq> []" and v: "py_int v = Inr k" and k: "0 < k"
  shows "coarsen \<lparr>every = Some v, until = None\<rparr> self =
     (None, self\<lparr>points :=
        map (\<lambda>i. points self ! (i * nat k)) [0..<(length (points self) - 1) div nat k + 1]
        @ (if int (length (points self)) mod k \<noteq> 0 then [last (points self)] else [])\<rparr>)"
proof -
  have sl: "py_slice_step (points self) k =
      Inr (map (\<lambda>i. points self ! (i * nat k)) [0..<(length (points self) - 1) div nat k + 1])"
    using ne k by (simp add: py_slice_step_def)
  have "coarsen \<lparr>every = Some v, until = None\<rparr> self = coarsen_every v self"
    using ne by (simp add: coarsen_def)
  then show ?thesis
    using coarsen_every_nonzero [OF ne v] k by (auto simp add: sl)
qed

lemma coarsen_every_count:
  assumes ne: "points self \<noteq> []" and v: "py_int v = Inr k" and k: "0 < k"
  shows "length (points (snd (coarsen \<lparr>every = Some v, until = None\<rparr> self))) =
     (length (points self) + nat k - 1) div nat k
       + (if nat k dvd length (points self) then 0 else 1)"
proof -
  let ?n = "length (points self)"
  define m where "m = nat k"
  have km: "k = int m" and m: "0 < m" using k by (simp_all add: m_def)
  have n: "0 < ?n" using ne by simp
  have shift: "?n + m - 1 = (?n - 1) + m" using n by linarith
  have "((?n - 1) + m) div m = (?n - 1) div m + 1"
    using m by simp
  then have ceil: "(?n + m - 1) div m = (?n - 1) div m + 1"
    by (simp only: shift)
  have "int ?n mod int m = int (?n mod m)"
    by (simp only: zmod_int)
  then have dv: "int ?n mod k \<noteq> 0 \<longleftrightarrow> \<not> m dvd ?n"
    unfolding km by (simp only: dvd_eq_mod_eq_0 of_nat_eq_0_iff)
  have "length (points (snd (coarsen \<lparr>every = Some v, until = None\<rparr> self))) =
      (?n - 1) div m + 1 + (if int ?n mod k \<noteq> 0 then 1 else 0)"
    unfolding coarsen_every_general [OF ne v k] m_def by simp
  also have "\<dots> = (?n + m - 1) div m + (if m dvd ?n then 0 else 1)"
    unfolding ceil dv by simp
  finally show ?thesis
    by (simp only: m_def)
qed

lemma coarsen_every_first:
  assumes ne: "points self \<noteq> []" and v: "py_int v = Inr k" and k: "0 < k"
  shows "hd (points (snd (coarsen \<lparr>every = Some v, until = None\<rparr> self))) = hd (points self)"
proof -
  have "[0..<(length (points self) - 1) div nat k + 1] = 0 # [1..<(length (points self) - 1) div nat k + 1]"
    by (simp add: upt_rec)
  then show ?thesis
    unfolding coarsen_every_general [OF ne v k] using ne by (simp add: hd_conv_nth)
qed

text \<open>
  C3: \<^verbatim>\<open>coarsen(every=k)\<close> is to keep both end points and to append the last point
  exactly when the last position kept is not the last one. The test of the method is
  \<^verbatim>\<open>len(points) % k != 0\<close>, which is not that condition: of four points, \<^verbatim>\<open>every=2\<close>
  keeps the positions 0 and 2 and loses the last point; of three points it keeps the
  positions 0 and 2, the last of which is the last point, and appends that point again.
\<close>

theorem coarsen_every_endpoints:
  "coarsen \<lparr>every = Some (PyNum (PyInt 2)), until = None\<rparr>
      \<lparr>points = [(PyInt 0, PyInt 0), (PyInt 1, PyInt 1), (PyInt 2, PyInt 2), (PyInt 3, PyInt 3)]\<rparr>
     = (None, \<lparr>points = [(PyInt 0, PyInt 0), (PyInt 2, PyInt 2)]\<rparr>)
   \<and> coarsen \<lparr>every = Some (PyNum (PyInt 2)), until = None\<rparr>
      \<lparr>points = [(PyInt 0, PyInt 0), (PyInt 1, PyInt 1), (PyInt 2, PyInt 2)]\<rparr>
     = (None, \<lparr>points = [(PyInt 0, PyInt 0), (PyInt 2, PyInt 2), (PyInt 2, PyInt 2)]\<rparr>)"
  by (simp add: coarsen_def coarsen_every_def py_slice_step_def py_getitem_def upt_rec)

subsection \<open>What coarsen(until=k) keeps\<close>

text \<open>
  The comprehension of \<^verbatim>\<open>until\<close> yields one point for each of \<open>1, \<dots>, k - 2\<close>, and the last
  point is appended: where the call returns on a non-empty curve with \<open>k \<ge> 2\<close>, it
  leaves \<open>k - 1\<close> points.
\<close>

lemma coarsen_until_count:
  assumes "points self \<noteq> []" and "py_int v = Inr k" and "2 \<le> k"
    and "fst (coarsen \<lparr>every = None, until = Some v\<rparr> self) = None"
  shows "int (length (points (snd (coarsen \<lparr>every = None, until = Some v\<rparr> self)))) = k - 1"
  using assms
  by (auto simp add: coarsen_def coarsen_until_def Let_def py_xrange_def
      split: sum.splits if_splits dest: comprehension_length)

text \<open>
  The position that the comprehension reads follows the float arithmetic: on 31 points
  with \<^verbatim>\<open>until=23\<close> the step \<open>30 / 22\<close> is rounded, its product with 11 is rounded, and
  the position read is 14, where the exact quotient gives 15.
\<close>

lemma quantum_E5: "quantum (30 / 22) = - 52"
  by (simp add: quantum_def ilog2_def)
lemma round_to_E5: "round_to (- 52) (30 / 22) = 6141272219141585 / 2 ^ 52"
  by (simp add: round_to_def round_half_even_def Let_def)
lemma round_double_E5: "round_double (30 / 22) = Finite (6141272219141585 / 2 ^ 52)"
  by (subst round_double_eval [OF _ quantum_E5 round_to_E5]) simp_all

lemma quantum_E6: "quantum (11 * (6141272219141585 / 2 ^ 52)) = - 49"
  by (simp add: quantum_def ilog2_def)
lemma round_to_E6:
  "round_to (- 49) (11 * (6141272219141585 / 2 ^ 52)) = 8444249301319679 / 2 ^ 49"
  by (simp add: round_to_def round_half_even_def Let_def)
lemma round_double_E6:
  "round_double (11 * (6141272219141585 / 2 ^ 52)) = Finite (8444249301319679 / 2 ^ 49)"
  by (subst round_double_eval [OF _ quantum_E6 round_to_E6]) simp_all

lemma until_position_rounds:
  "and_then (num_sub (PyInt 23) (PyFloat (Finite 1))) (\<lambda>d. num_div (PyInt (31 - 1)) d)
     = Inr (PyFloat (Finite (6141272219141585 / 2 ^ 52)))
   \<and> until_item (map (\<lambda>i. (i, i)) [0..<31]) (PyFloat (Finite (6141272219141585 / 2 ^ 52))) 11
       = Inr (14, 14)
   \<and> \<lfloor>11 * (30 / 22 :: real)\<rfloor> = 15"
  by (simp add: until_item_def int_to_float_def py_getitem_def
      round_double_E5 [simplified] round_double_E6 [simplified]
      round_double_dyadic [of 23 0, simplified] round_double_dyadic [of 22 0, simplified]
      round_double_dyadic [of 30 0, simplified] round_double_dyadic [of 11 0, simplified]
      round_double_dyadic [of 1 0, simplified])

text \<open>
  C2: \<^verbatim>\<open>coarsen(until=k)\<close> is to leave exactly \<open>k\<close> points, the first and the last among
  them, and to change nothing on fewer than \<open>k\<close> points. The method builds its result
  from the positions \<open>1, \<dots>, k - 2\<close> of the step and the last point: of three points,
  \<^verbatim>\<open>until=2\<close> leaves the last point alone; of five points, \<^verbatim>\<open>until=3\<close> leaves two, the
  first not among them; and a curve of one point becomes two points under \<^verbatim>\<open>until=3\<close>.
\<close>

theorem coarsen_until_points:
  "coarsen \<lparr>every = None, until = Some (PyNum (PyInt 2))\<rparr>
      \<lparr>points = [(PyInt 0, PyInt 0), (PyInt 1, PyInt 1), (PyInt 2, PyInt 2)]\<rparr>
     = (None, \<lparr>points = [(PyInt 2, PyInt 2)]\<rparr>)
   \<and> coarsen \<lparr>every = None, until = Some (PyNum (PyInt 3))\<rparr>
      \<lparr>points = [(PyInt 0, PyInt 0), (PyInt 1, PyInt 1), (PyInt 2, PyInt 2),
                 (PyInt 3, PyInt 3), (PyInt 4, PyInt 4)]\<rparr>
     = (None, \<lparr>points = [(PyInt 2, PyInt 2), (PyInt 4, PyInt 4)]\<rparr>)
   \<and> coarsen \<lparr>every = None, until = Some (PyNum (PyInt 3))\<rparr>
      \<lparr>points = [(PyInt 5, PyInt 7)]\<rparr>
     = (None, \<lparr>points = [(PyInt 5, PyInt 7), (PyInt 5, PyInt 7)]\<rparr>)"
  by (simp add: coarsen_def coarsen_until_def until_item_def py_xrange_def py_getitem_def
      int_to_float_def dyadic_values upto.simps)

subsection \<open>Transformations\<close>

text \<open>
  C9: \<^verbatim>\<open>transform_x\<close> and \<^verbatim>\<open>transform_y\<close> with the identity leave the curve unchanged,
  and \<^verbatim>\<open>transform_x(f)\<close> followed by \<^verbatim>\<open>transform_x(g)\<close> is \<^verbatim>\<open>transform_x\<close> of the
  composition \<open>g \<circ> f\<close>; likewise for \<^verbatim>\<open>transform_y\<close>.
\<close>

theorem transform_identity_compose:
  "transform_x (\<lambda>x. x) self = self
   \<and> transform_y (\<lambda>y. y) self = self
   \<and> transform_x g (transform_x f self) = transform_x (g \<circ> f) self
   \<and> transform_y g (transform_y f self) = transform_y (g \<circ> f) self"
  by (simp add: transform_x_def transform_y_def split_beta)

text \<open>
  C10: \<^verbatim>\<open>transform\<close>, \<^verbatim>\<open>transform_x\<close> and \<^verbatim>\<open>transform_y\<close> keep the number of points and
  their order: the point at position \<open>i\<close> of the result is the image of the point at
  position \<open>i\<close> of the curve.
\<close>

theorem transform_pointwise:
  "length (points (transform t self)) = length (points self)
   \<and> (\<forall>i < length (points self).
        points (transform t self) ! i = t (fst (points self ! i)) (snd (points self ! i)))
   \<and> length (points (transform_x f self)) = length (points self)
   \<and> (\<forall>i < length (points self).
        points (transform_x f self) ! i = (f (fst (points self ! i)), snd (points self ! i)))
   \<and> length (points (transform_y f self)) = length (points self)
   \<and> (\<forall>i < length (points self).
        points (transform_y f self) ! i = (fst (points self ! i), f (snd (points self ! i))))"
  by (simp add: transform_def transform_x_def transform_y_def split_beta)

theorem transform_pointwise_witness:
  "points (transform (\<lambda>x y. (y, x + 1)) \<lparr>points = [(1, 2), (3, 4 :: real)]\<rparr>) ! 1 = (4, 4)
   \<and> points (transform_x (\<lambda>x. 2 * x) \<lparr>points = [(1, 2), (3, 4 :: real)]\<rparr>) ! 1 = (6, 4)
   \<and> points (transform_y (\<lambda>y. y - 1) \<lparr>points = [(1, 2), (3, 4 :: real)]\<rparr>) ! 0 = (1, 1)
   \<and> length (points (transform_x (\<lambda>x. 2 * x) \<lparr>points = [(1, 2), (3, 4 :: real)]\<rparr>)) = 2"
  using transform_pointwise [of "\<lambda>x y. (y, x + 1)" "\<lparr>points = [(1, 2), (3, 4 :: real)]\<rparr>" "\<lambda>x. 2 * x"]
    transform_pointwise [of "\<lambda>x y. (y, x + 1)" "\<lparr>points = [(1, 2), (3, 4 :: real)]\<rparr>" "\<lambda>y. y - 1"]
  by simp

subsection \<open>Constructors of the curve classes\<close>

text \<open>
  \<^verbatim>\<open>ROCCurve\<close> and \<^verbatim>\<open>PrecisionRecallCurve\<close> name their own class in \<^verbatim>\<open>super\<close>: the
  constructor succeeds and the points are the two metrics of every confusion matrix, in
  the order of the dataset.
\<close>

lemma ROCCurve_init_points:
  "ROCCurve_init fpr tpr d =
     Inr \<lparr>points = map (\<lambda>(_, m). (fpr m, tpr m)) d, data = d, x_func = fpr, y_func = tpr\<rparr>"
  by (simp add: ROCCurve_init_def super_init_def py_super_def
      BinaryClassifierPerformanceCurve_init_def calculate_points_def)

lemma PrecisionRecallCurve_init_points:
  "PrecisionRecallCurve_init recall precision d =
     Inr \<lparr>points = map (\<lambda>(_, m). (recall m, precision m)) d, data = d,
          x_func = recall, y_func = precision\<rparr>"
  by (simp add: PrecisionRecallCurve_init_def super_init_def py_super_def
      BinaryClassifierPerformanceCurve_init_def calculate_points_def)

text \<open>
  C4: the constructor of \<^verbatim>\<open>AccumulationCurve\<close> is to succeed on any dataset and to bind
  the metrics FDP and TPR. It calls \<^verbatim>\<open>super(PrecisionRecallCurve, self)\<close> on an instance
  of \<^verbatim>\<open>AccumulationCurve\<close>, which is not a \<^verbatim>\<open>PrecisionRecallCurve\<close>: the call raises
  \<^verbatim>\<open>TypeError\<close> for every dataset and no curve is built.
\<close>

theorem AccumulationCurve_init_raises:
  "AccumulationCurve_init fdp tpr d = Inl TypeError"
  by (simp add: AccumulationCurve_init_def super_init_def py_super_def)

end
